theory Spec2Isabelle
  imports Complex_Main
begin

section \<open>Signal sampling experiment: embedding of signal_sampling_experiment.py\<close>

text \<open>
  The program samples the two-tone signal \<open>cos(2\<pi> f1 t + \<pi>/4) + cos(2\<pi> f2 t)\<close>, computes a
  normalised one-sided magnitude spectrum and redraws two plots on key events.

  Modelling conventions.
  \<^item> Python integers are \<open>int\<close>; floating-point numbers are idealised as \<open>real\<close> and
    complex floating-point numbers as \<open>complex\<close>. Rounding is therefore not modelled.
  \<^item> A numpy array is a list. Slices follow Python's clipping rules.
  \<^item> Every exception of the source is a value of \<open>error\<close>, returned as \<open>Inl\<close>.
  \<^item> The plotting library is not executed: each drawing call is recorded in a record of
    what the figure shows, and the drawing calls that raise on the data they are given
    (\<open>stem\<close>, \<open>splrep\<close>, plotting arrays of different lengths) return their error. The fitted
    curve is a presentation aid; only its kind is kept.
\<close>

subsection \<open>Errors\<close>

datatype error = ValueError | ZeroDivisionError | IndexError

subsection \<open>Python and numpy primitives used by the source\<close>

text \<open>Clipping of one slice bound against a sequence of length \<open>n\<close>.\<close>

definition slice_bound :: "int \<Rightarrow> nat \<Rightarrow> nat" where
  "slice_bound i n = (if i < 0 then nat (max (i + int n) 0) else min (nat i) n)"

text \<open>\<open>xs[a:b]\<close>.\<close>

definition py_slice :: "'a list \<Rightarrow> int \<Rightarrow> int \<Rightarrow> 'a list" where
  "py_slice xs a b =
     (let lo = slice_bound a (length xs); hi = slice_bound b (length xs)
      in take (hi - lo) (drop lo xs))"

text \<open>
  \<open>xs[a:b] = c * xs[a:b]\<close> and \<open>xs[a:b] *= c\<close> on an array: the selected positions are
  overwritten in place, the others stay.
\<close>

definition scale_slice :: "real \<Rightarrow> int \<Rightarrow> int \<Rightarrow> real list \<Rightarrow> real list" where
  "scale_slice c a b xs =
     (let lo = slice_bound a (length xs); hi = slice_bound b (length xs)
      in take lo xs @ map (\<lambda>x. c * x) (py_slice xs a b) @ drop (max lo hi) xs)"

text \<open>
  Reading one element, \<open>xs[i]\<close>: an index below zero is taken relative to the end of
  the sequence, and an index outside the sequence raises.
\<close>

definition py_get :: "'a list \<Rightarrow> int \<Rightarrow> error + 'a" where
  "py_get xs i =
     (if 0 \<le> i \<and> i < int (length xs) then Inr (xs ! nat i)
      else if i < 0 \<and> 0 \<le> i + int (length xs) then Inr (xs ! nat (i + int (length xs)))
      else Inl IndexError)"

text \<open>\<open>a / b\<close> on Python numbers.\<close>

definition py_truediv :: "real \<Rightarrow> real \<Rightarrow> error + real" where
  "py_truediv a b = (if b = 0 then Inl ZeroDivisionError else Inr (a / b))"

text \<open>\<open>np.arange(n)\<close>: the integers \<open>0, ..., n - 1\<close>, none when \<open>n \<le> 0\<close>.\<close>

definition arange :: "int \<Rightarrow> real list" where
  "arange n = map real_of_int [0..n - 1]"

text \<open>
  \<open>scipy.fft.fft\<close> on a real array: the discrete Fourier transform
  \<open>X\<^sub>k = \<Sum>\<^sub>n x\<^sub>n exp(-2\<pi>i k n / M)\<close> of its \<open>M\<close> entries. The library rejects an empty
  array with a ValueError (invalid number of data points).
\<close>

definition dft_bin :: "real list \<Rightarrow> nat \<Rightarrow> complex" where
  "dft_bin x k =
     (\<Sum>n\<leftarrow>[0..<length x].
        complex_of_real (x ! n) * cis (- (2 * pi * real k * real n / real (length x))))"

definition fft :: "real list \<Rightarrow> error + complex list" where
  "fft x = (if x = [] then Inl ValueError else Inr (map (dft_bin x) [0..<length x]))"

text \<open>
  \<open>fftfreq(n, d)\<close>: computes \<open>val = 1.0 / (n * d)\<close> first, then allocates \<open>n\<close> entries
  \<open>0, 1, ..., (n-1)//2, -(n//2), ..., -1\<close> and scales them by \<open>val\<close>.
\<close>

definition fftfreq :: "int \<Rightarrow> real \<Rightarrow> error + real list" where
  "fftfreq n d =
     (if real_of_int n * d = 0 then Inl ZeroDivisionError
      else if n < 0 then Inl ValueError
      else Inr (map (\<lambda>k. real_of_int k * (1 / (real_of_int n * d)))
                  ([0..(n - 1) div 2] @ [- (n div 2)..- 1])))"

text \<open>\<open>str\<close> of a Python integer, as an f-string prints it.\<close>

fun str_nat :: "nat \<Rightarrow> string" where
  "str_nat n =
     (if n < 10 then [''0123456789'' ! n]
      else str_nat (n div 10) @ [''0123456789'' ! (n mod 10)])"

declare str_nat.simps [simp del]

definition str_int :: "int \<Rightarrow> string" where
  "str_int i = (if i < 0 then CHR ''-'' # str_nat (nat (- i)) else str_nat (nat i))"

subsection \<open>Signal parameters and the signal generator\<close>

definition f1 :: int where "f1 = 1000"
definition f2 :: int where "f2 = 1100"
definition phase :: real where "phase = pi / 4"

definition generate_signal :: "real list \<Rightarrow> real list" where
  "generate_signal t =
     map (\<lambda>x. cos (2 * pi * real_of_int f1 * x + phase) + cos (2 * pi * real_of_int f2 * x)) t"

subsection \<open>Plotting-library calls that can raise\<close>

text \<open>
  \<open>ax.stem(locs, heads)\<close>: the stem plot takes the minimum and maximum of \<open>locs\<close> for its
  baseline, which raises a ValueError on an empty array; arrays of different lengths are
  rejected with a ValueError as well. Otherwise the stems are drawn.
\<close>

definition stem :: "real list \<Rightarrow> real list \<Rightarrow> error + real list \<times> real list" where
  "stem locs heads =
     (if locs = [] \<or> length locs \<noteq> length heads then Inl ValueError
      else Inr (locs, heads))"

datatype fit = Spline | Quadratic

text \<open>
  \<open>splrep(x, y, s=0.01)\<close>: the smoothing-spline routine checks its input and raises a
  ValueError when the abscissae are not in increasing order. The spline itself is a
  presentation aid and is not computed here.
\<close>

definition splrep :: "real list \<Rightarrow> error + fit" where
  "splrep x = (if sorted x then Inr Spline else Inl ValueError)"

text \<open>
  The fitted curve, as both plotting routines of the source draw it: none for at most 3
  bins, \<open>interp1d(kind='quadratic')\<close>, which sorts its input itself, for 4 to 10 bins, and
  \<open>splrep\<close> for more.
\<close>

definition fit_curve :: "real list \<Rightarrow> error + fit option" where
  "fit_curve freqs =
     (if length freqs > 3 then
        (if length freqs > 10 then
           (case splrep freqs of Inl e \<Rightarrow> Inl e | Inr c \<Rightarrow> Inr (Some c))
         else Inr (Some Quadratic))
      else Inr None)"

subsection \<open>The spectrum analyzer\<close>

record figure =
  time_plot :: "real list \<times> real list"
  time_markers :: bool
  time_title :: string
  stem_plot :: "real list \<times> real list"
  stem_fit :: "fit option"
  freq_title :: string
  freq_xlim :: "real \<times> real"

text \<open>
  \<open>analyze_spectrum(signal, fs, N, title)\<close>. The time axis is \<open>np.arange(N) / fs\<close>; an
  array divided by zero does not raise, and for \<open>fs = 0\<close> the later \<open>1/fs\<close> raises before
  anything is drawn, so the values of \<open>t\<close> are not observable in that case. Plotting \<open>t\<close>
  against samples of another length is rejected by the plotting library. The figure is
  returned only when every drawing call has succeeded.
\<close>

definition analyze_spectrum ::
  "(real list \<Rightarrow> real list) \<Rightarrow> real \<Rightarrow> int \<Rightarrow> string \<Rightarrow> error + figure" where
  "analyze_spectrum signal fs N title =
     (let t = map (\<lambda>x. x / fs) (arange N);
          sampled_signal = signal t
      in case fft sampled_signal of
           Inl e \<Rightarrow> Inl e
         | Inr spectrum \<Rightarrow>
             (let magnitude = map (\<lambda>z. cmod z / real_of_int N) spectrum;
                  magnitude = py_slice magnitude 0 (N div 2);
                  magnitude = scale_slice 2 1 (- 1) magnitude
              in case py_truediv 1 fs of
                   Inl e \<Rightarrow> Inl e
                 | Inr d \<Rightarrow>
                     (case fftfreq N d of
                        Inl e \<Rightarrow> Inl e
                      | Inr fr \<Rightarrow>
                          (let freqs = py_slice fr 0 (N div 2)
                           in if length t \<noteq> length sampled_signal then Inl ValueError
                              else
                                (case stem freqs magnitude of
                                   Inl e \<Rightarrow> Inl e
                                 | Inr drawn \<Rightarrow>
                                     (case fit_curve freqs of
                                        Inl e \<Rightarrow> Inl e
                                      | Inr curve \<Rightarrow>
                                          Inr \<lparr> time_plot = (t, sampled_signal),
                                                time_markers = (N \<le> 100),
                                                time_title = ''Time Domain - '' @ title,
                                                stem_plot = drawn,
                                                stem_fit = curve,
                                                freq_title = ''Frequency Domain - '' @ title,
                                                freq_xlim =
                                                  (0, min (real_of_int (2 * f2)) (fs / 2)) \<rparr>))))))"

subsection \<open>The interactive session\<close>

definition fs_init :: int where "fs_init = 4000"
definition N_init :: int where "N_init = 1000"
definition fs_step :: int where "fs_step = 500"
definition N_step :: int where "N_step = 100"

text \<open>
  The two nonlocal variables of \<open>interactive_experiment\<close>, what its figure shows, the
  number of redraw requests, the lines printed, the image files written and whether the
  window was closed. The x-limits are those last given to \<open>set_xlim\<close>, \<open>None\<close> while the
  axes have none of their own (at set-up and after \<open>clear\<close>).
\<close>

record session =
  fs_current :: int
  N_current :: int
  time_line :: "real list \<times> real list"
  sample_points :: "real list \<times> real list"
  sample_points_visible :: bool
  ax1_xlim :: "(real \<times> real) option"
  ax1_title :: string
  ax2_stem :: "real list \<times> real list"
  ax2_fit :: "fit option"
  ax2_xlim :: "(real \<times> real) option"
  ax2_title :: string
  draws :: nat
  printed :: "string list"
  saved :: "string list"
  closed :: bool

text \<open>The session as \<open>interactive_experiment\<close> sets it up, before the first drawing.\<close>

definition session0 :: session where
  "session0 =
     \<lparr> fs_current = fs_init, N_current = N_init,
       time_line = ([], []), sample_points = ([], []), sample_points_visible = True,
       ax1_xlim = None, ax1_title = [],
       ax2_stem = ([], []), ax2_fit = None, ax2_xlim = None, ax2_title = [],
       draws = 0, printed = [], saved = [], closed = False \<rparr>"

definition title_status :: "int \<Rightarrow> string" where
  "title_status fs = (if fs < 2 * f2 then ''Undersampling'' else ''Proper Sampling'')"

text \<open>
  \<open>update_plot()\<close>: recomputes the samples and the spectrum from the current parameters
  and redraws. The transform, \<open>1/fs_current\<close> and \<open>fftfreq\<close> raise before anything is drawn.
  After that the time-domain lines are updated, \<open>t[-1]\<close> is read, the frequency axes are
  cleared, and \<open>stem\<close> and the fitted curve are drawn; an exception raised there leaves the
  drawing calls made so far in place. The result is \<open>Inr\<close> of the redrawn session, or
  \<open>Inl\<close> of the exception and the session as the exception left it.
\<close>

definition update_plot :: "session \<Rightarrow> error \<times> session + session" where
  "update_plot st =
     (let t = map (\<lambda>x. x / real_of_int (fs_current st)) (arange (N_current st));
          sampled_signal = generate_signal t
      in case fft sampled_signal of
           Inl e \<Rightarrow> Inl (e, st)
         | Inr spectrum \<Rightarrow>
             (let half_point = N_current st div 2;
                  magnitude = map (\<lambda>z. cmod z / real_of_int (N_current st))
                                (py_slice spectrum 0 half_point);
                  magnitude = scale_slice 2 1 (half_point - 1) magnitude
              in case py_truediv 1 (real_of_int (fs_current st)) of
                   Inl e \<Rightarrow> Inl (e, st)
                 | Inr d \<Rightarrow>
                     (case fftfreq (N_current st) d of
                        Inl e \<Rightarrow> Inl (e, st)
                      | Inr fr \<Rightarrow>
                          (let freqs = py_slice fr 0 half_point;
                               st1 = st \<lparr> time_line := (t, sampled_signal),
                                          sample_points :=
                                            (if N_current st \<le> 100 then (t, sampled_signal)
                                             else sample_points st),
                                          sample_points_visible := (N_current st \<le> 100) \<rparr>
                           in case py_get t (- 1) of
                                Inl e \<Rightarrow> Inl (e, st1)
                              | Inr t_last \<Rightarrow>
                                  (let st2 = st1 \<lparr> ax1_xlim := Some (0, t_last),
                                                   ax2_stem := ([], []), ax2_fit := None,
                                                   ax2_xlim := None, ax2_title := [] \<rparr>
                                   in case stem freqs magnitude of
                                        Inl e \<Rightarrow> Inl (e, st2)
                                      | Inr drawn \<Rightarrow>
                                          (let st3 = st2 \<lparr> ax2_stem := drawn \<rparr>
                                           in case fit_curve freqs of
                                                Inl e \<Rightarrow> Inl (e, st3)
                                              | Inr curve \<Rightarrow>
                                                  Inr (st3
                                                    \<lparr> ax2_fit := curve,
                                                      ax2_xlim :=
                                                        Some (0, min (real_of_int (2 * f2))
                                                           (real_of_int (fs_current st) / 2)),
                                                      ax1_title :=
                                                        ''Time Domain - ''
                                                        @ title_status (fs_current st)
                                                        @ '': Fs='' @ str_int (fs_current st)
                                                        @ ''Hz, N='' @ str_int (N_current st),
                                                      ax2_title :=
                                                        ''Frequency Domain - ''
                                                        @ title_status (fs_current st)
                                                        @ '': Fs='' @ str_int (fs_current st)
                                                        @ ''Hz, N='' @ str_int (N_current st),
                                                      draws := Suc (draws st) \<rparr>)))))))"

text \<open>
  The tail of \<open>on_key\<close>: the call of \<open>update_plot()\<close> that every branch without a
  \<open>return\<close> reaches. An exception leaves the handler; the assignments and drawing calls
  made before it stay.
\<close>

definition redraw :: "session \<Rightarrow> session \<times> error option" where
  "redraw st =
     (case update_plot st of Inl (e, st') \<Rightarrow> (st', Some e) | Inr st' \<Rightarrow> (st', None))"

text \<open>
  \<open>on_key(event)\<close>, with \<open>event.key\<close> a string or \<open>None\<close>. The result is the session after
  the handler and the exception that left it, if any.
\<close>

definition on_key :: "string option \<Rightarrow> session \<Rightarrow> session \<times> error option" where
  "on_key key st =
     (if key = Some ''up'' then
        (let st1 = st \<lparr> fs_current := fs_current st + fs_step \<rparr>
         in redraw (st1 \<lparr> printed := printed st1 @
              [''Sampling frequency increased to: '' @ str_int (fs_current st1) @ ''Hz''] \<rparr>))
      else if key = Some ''down'' \<and> fs_current st > fs_step then
        (let st1 = st \<lparr> fs_current := fs_current st - fs_step \<rparr>
         in redraw (st1 \<lparr> printed := printed st1 @
              [''Sampling frequency decreased to: '' @ str_int (fs_current st1) @ ''Hz''] \<rparr>))
      else if key = Some ''right'' then
        (let st1 = st \<lparr> N_current := N_current st + N_step \<rparr>
         in redraw (st1 \<lparr> printed := printed st1 @
              [''Sample count increased to: '' @ str_int (N_current st1)] \<rparr>))
      else if key = Some ''left'' \<and> N_current st > N_step then
        (let st1 = st \<lparr> N_current := N_current st - N_step \<rparr>
         in redraw (st1 \<lparr> printed := printed st1 @
              [''Sample count decreased to: '' @ str_int (N_current st1)] \<rparr>))
      else if key = Some ''s'' then
        (let filename = ''experiment_fs_'' @ str_int (fs_current st) @ ''_N_''
               @ str_int (N_current st) @ ''.png''
         in redraw (st \<lparr> saved := saved st @ [filename],
                          printed := printed st @ [''Image saved as: '' @ filename] \<rparr>))
      else if key = Some ''q'' then (st \<lparr> closed := True \<rparr>, None)
      else (st, None))"

text \<open>
  \<open>interactive_experiment()\<close> up to the event loop: the figure is set up, drawn once by
  \<open>update_plot()\<close> and \<open>on_key\<close> is connected. The result is the session the event loop
  starts from and the exception that ended the set-up, if any.
\<close>

definition interactive_experiment :: "session \<times> error option" where
  "interactive_experiment = redraw session0"

text \<open>
  The sessions the program can be in: the one the event loop starts from, and those after
  a key event delivered to the open window.
\<close>

inductive reachable :: "session \<Rightarrow> bool" where
  start: "interactive_experiment = (st, None) \<Longrightarrow> reachable st"
| key: "reachable st \<Longrightarrow> \<not> closed st \<Longrightarrow> reachable (fst (on_key k st))"

section \<open>Auxiliary facts about the embedding\<close>

subsection \<open>Slices\<close>

lemma py_slice_prefix: "0 \<le> b \<Longrightarrow> py_slice xs 0 b = take (nat b) xs"
  by (simp add: py_slice_def slice_bound_def min_def)

lemma length_scale_slice: "length (scale_slice c a b xs) = length xs"
  by (auto simp: scale_slice_def py_slice_def Let_def)

lemma scale_slice_inner_unfold:
  "scale_slice c 1 (- 1) xs =
     take 1 xs @ map (\<lambda>x. c * x) (take (length xs - 2) (drop 1 xs)) @ drop (max 1 (length xs - 1)) xs"
proof (cases "length xs = 0")
  case True
  then show ?thesis by (simp add: scale_slice_def py_slice_def slice_bound_def)
next
  case False
  then have lo: "slice_bound 1 (length xs) = 1"
    by (cases xs) (simp_all add: slice_bound_def)
  have hi: "slice_bound (- 1) (length xs) = length xs - 1"
    using False by (simp add: slice_bound_def nat_diff_distrib)
  have "length xs - 1 - 1 = length xs - 2" by simp
  then show ?thesis
    by (simp add: scale_slice_def py_slice_def lo hi del: One_nat_def)
qed

lemma nth_scale_slice_inner:
  assumes "i < length xs"
  shows "scale_slice c 1 (- 1) xs ! i = (if 1 \<le> i \<and> Suc i < length xs then c * xs ! i else xs ! i)"
proof -
  let ?A = "take 1 xs"
  let ?B = "map (\<lambda>x. c * x) (take (length xs - 2) (drop 1 xs))"
  let ?C = "drop (max 1 (length xs - 1)) xs"
  have lenA: "length ?A = 1" using assms by (cases xs) simp_all
  have lenB: "length ?B = length xs - 2" by simp
  have eq: "scale_slice c 1 (- 1) xs = ?A @ ?B @ ?C"
    by (rule scale_slice_inner_unfold)
  consider "i = 0" | "1 \<le> i" "Suc i < length xs" | "1 \<le> i" "Suc i = length xs"
    using assms by linarith
  then show ?thesis
  proof cases
    case 1
    then show ?thesis using assms
      by (simp add: scale_slice_inner_unfold nth_append)
  next
    case 2
    then have lt: "i - 1 < length xs - 2" by arith
    have "(?A @ ?B @ ?C) ! i = (?B @ ?C) ! (i - 1)"
      using 2 lenA by (simp add: nth_append del: One_nat_def take_Suc_conv_app_nth)
    also have "\<dots> = ?B ! (i - 1)"
      using lt by (simp only: nth_append lenB if_True)
    also have "\<dots> = c * xs ! i"
      using 2 lt by simp
    finally show ?thesis using 2 eq by simp
  next
    case 3
    then have ge: "\<not> i - 1 < length xs - 2" by arith
    have "(?A @ ?B @ ?C) ! i = (?B @ ?C) ! (i - 1)"
      using 3 lenA by (simp add: nth_append del: One_nat_def)
    also have "\<dots> = ?C ! (i - 1 - (length xs - 2))"
      using ge by (simp only: nth_append lenB if_False)
    also have "\<dots> = xs ! i"
    proof -
      have len: "length xs = Suc i" using 3 by simp
      have "max 1 (length xs - 1) = i" using 3 len by simp
      moreover have "i - 1 - (length xs - 2) = 0" using len by simp
      ultimately show ?thesis using len by simp
    qed
    finally show ?thesis using 3 eq by simp
  qed
qed

lemma scale_slice_explicit_stop:
  "scale_slice c 1 (int (length xs) - 1) xs = scale_slice c 1 (- 1) xs"
  by (simp add: scale_slice_def py_slice_def slice_bound_def nat_diff_distrib)

subsection \<open>Library primitives\<close>

lemma length_arange: "length (arange n) = nat n"
  by (simp add: arange_def)

lemma arange_empty: "n \<le> 0 \<Longrightarrow> arange n = []"
  by (simp add: arange_def)

lemma nth_arange: "k < nat n \<Longrightarrow> arange n ! k = real k"
  by (simp add: arange_def)

lemma fft_nonempty: "x \<noteq> [] \<Longrightarrow> fft x = Inr (map (dft_bin x) [0..<length x])"
  by (simp add: fft_def)

lemma fft_empty: "fft [] = Inl ValueError"
  by (simp add: fft_def)

lemma fftfreq_ok:
  "0 < n \<Longrightarrow> d \<noteq> 0 \<Longrightarrow>
   fftfreq n d = Inr (map (\<lambda>k. real_of_int k * (1 / (real_of_int n * d)))
                       ([0..(n - 1) div 2] @ [- (n div 2)..- 1]))"
  by (simp add: fftfreq_def)

lemma length_positive_bins: "0 < n \<Longrightarrow> nat (n div 2) \<le> length [0..(n - 1) div 2]"
  by simp

lemma length_one_sided_freqs:
  assumes "0 < n"
  shows "length (py_slice (map f ([0..(n - 1) div 2] @ [- (n div 2)..- 1])) 0 (n div 2)) = nat (n div 2)"
proof -
  have "0 \<le> n div 2" using assms by simp
  then show ?thesis using assms by (simp add: py_slice_prefix)
qed

lemma nth_one_sided_freqs:
  assumes "0 < n" and "k < nat (n div 2)"
  shows "py_slice (map f ([0..(n - 1) div 2] @ [- (n div 2)..- 1])) 0 (n div 2) ! k = f (int k)"
proof -
  have nn: "0 \<le> n div 2" using assms by simp
  have k1: "k < length [0..(n - 1) div 2]" using assms by simp
  show ?thesis
    using assms nn k1 by (simp add: py_slice_prefix nth_append)
qed

subsection \<open>Drawing calls\<close>

lemma stem_ok: "locs \<noteq> [] \<Longrightarrow> length locs = length heads \<Longrightarrow> stem locs heads = Inr (locs, heads)"
  by (simp add: stem_def)

lemma stem_empty: "stem [] heads = Inl ValueError"
  by (simp add: stem_def)

lemma fit_curve_sorted: "sorted freqs \<Longrightarrow> \<exists>curve. fit_curve freqs = Inr curve"
  by (simp add: fit_curve_def splrep_def)

lemma fit_curve_few: "length freqs \<le> 10 \<Longrightarrow> \<exists>curve. fit_curve freqs = Inr curve"
  by (simp add: fit_curve_def)

lemma length_one_sided_magnitude:
  assumes "0 < N"
  shows "length (py_slice (map f [0..<nat N]) 0 (N div 2)) = nat (N div 2)"
proof -
  have "0 \<le> N div 2" using assms by simp
  moreover have "nat (N div 2) \<le> nat N" using assms by simp
  ultimately show ?thesis by (simp add: py_slice_prefix)
qed

lemma nth_one_sided_magnitude:
  assumes "0 < N" and "k < nat (N div 2)"
  shows "py_slice (map f [0..<nat N]) 0 (N div 2) ! k = f k"
proof -
  have "0 \<le> N div 2" using assms by simp
  moreover have "k < nat N" using assms by linarith
  ultimately show ?thesis using assms by (simp add: py_slice_prefix)
qed

lemma sorted_one_sided_freqs:
  assumes n: "0 < n" and c: "0 \<le> c"
  shows "sorted (py_slice (map (\<lambda>k. real_of_int k * c) ([0..(n - 1) div 2] @ [- (n div 2)..- 1]))
                   0 (n div 2))"
proof (subst sorted_iff_nth_mono, intro allI impI)
  fix i j
  let ?F = "py_slice (map (\<lambda>k. real_of_int k * c) ([0..(n - 1) div 2] @ [- (n div 2)..- 1]))
                   0 (n div 2)"
  assume ij: "i \<le> j" and j: "j < length ?F"
  have l: "length ?F = nat (n div 2)" by (rule length_one_sided_freqs [OF n])
  have jn: "j < nat (n div 2)" using j l by simp
  then have inn: "i < nat (n div 2)" using ij by simp
  have "?F ! i = real_of_int (int i) * c" by (rule nth_one_sided_freqs [OF n inn])
  moreover have "?F ! j = real_of_int (int j) * c" by (rule nth_one_sided_freqs [OF n jn])
  moreover have "real_of_int (int i) * c \<le> real_of_int (int j) * c"
    using ij c by (simp add: mult_right_mono)
  ultimately show "?F ! i \<le> ?F ! j" by simp
qed

subsection \<open>The analyzer on a proper input\<close>

text \<open>What \<open>analyze_spectrum\<close> draws when it succeeds.\<close>

lemma analyze_spectrum_ok:
  assumes N: "2 \<le> N" and fs: "fs \<noteq> 0"
    and len: "length (signal (map (\<lambda>x. x / fs) (arange N))) = nat N"
    and fit: "fit_curve (py_slice (map (\<lambda>k. real_of_int k * (1 / (real_of_int N * (1 / fs))))
                                ([0..(N - 1) div 2] @ [- (N div 2)..- 1])) 0 (N div 2)) = Inr curve"
  shows "analyze_spectrum signal fs N title =
           Inr \<lparr> time_plot = (map (\<lambda>x. x / fs) (arange N), signal (map (\<lambda>x. x / fs) (arange N))),
                 time_markers = (N \<le> 100),
                 time_title = ''Time Domain - '' @ title,
                 stem_plot =
                   (py_slice (map (\<lambda>k. real_of_int k * (1 / (real_of_int N * (1 / fs))))
                                ([0..(N - 1) div 2] @ [- (N div 2)..- 1])) 0 (N div 2),
                    scale_slice 2 1 (- 1)
                      (py_slice (map (\<lambda>z. cmod z / real_of_int N)
                                   (map (dft_bin (signal (map (\<lambda>x. x / fs) (arange N))))
                                      [0..<nat N])) 0 (N div 2))),
                 stem_fit = curve,
                 freq_title = ''Frequency Domain - '' @ title,
                 freq_xlim = (0, min (real_of_int (2 * f2)) (fs / 2)) \<rparr>"
proof -
  let ?s = "signal (map (\<lambda>x. x / fs) (arange N))"
  let ?F = "py_slice (map (\<lambda>k. real_of_int k * (1 / (real_of_int N * (1 / fs))))
                                ([0..(N - 1) div 2] @ [- (N div 2)..- 1])) 0 (N div 2)"
  let ?M = "scale_slice 2 1 (- 1)
                      (py_slice (map (\<lambda>z. cmod z / real_of_int N)
                                   (map (dft_bin ?s) [0..<nat N])) 0 (N div 2))"
  have N0: "0 < N" using N by simp
  have ne: "?s \<noteq> []" using len N by auto
  have f: "fft ?s = Inr (map (dft_bin ?s) [0..<nat N])"
    using fft_nonempty [OF ne] len by simp
  have d: "py_truediv 1 fs = Inr (1 / fs)"
    using fs by (simp add: py_truediv_def)
  have q: "fftfreq N (1 / fs) = Inr (map (\<lambda>k. real_of_int k * (1 / (real_of_int N * (1 / fs))))
                       ([0..(N - 1) div 2] @ [- (N div 2)..- 1]))"
    using N0 fs by (intro fftfreq_ok) simp_all
  have lF: "length ?F = nat (N div 2)" by (rule length_one_sided_freqs [OF N0])
  have lM: "length ?M = nat (N div 2)"
    unfolding length_scale_slice map_map by (rule length_one_sided_magnitude [OF N0])
  have "0 < nat (N div 2)" using N by simp
  then have Fne: "?F \<noteq> []" using lF by auto
  have st: "stem ?F ?M = Inr (?F, ?M)"
    by (rule stem_ok [OF Fne]) (simp only: lF lM)
  show ?thesis
    by (simp only: analyze_spectrum_def Let_def f d q st fit sum.case len length_map length_arange
          simp_thms if_False)
qed

text \<open>
  The spectrum \<open>analyze_spectrum\<close> plots: bin \<open>k\<close> of the transform, normalised by \<open>N\<close>,
  doubled at the positions \<open>1, ..., N div 2 - 2\<close> of the retained half.
\<close>

lemma analyze_spectrum_bins:
  assumes N: "2 \<le> N" and fs: "0 < fs"
    and len: "length (signal (map (\<lambda>x. x / fs) (arange N))) = nat N"
  obtains fig where
    "analyze_spectrum signal fs N title = Inr fig"
    "length (fst (stem_plot fig)) = nat (N div 2)"
    "length (snd (stem_plot fig)) = nat (N div 2)"
    "\<And>k. k < nat (N div 2) \<Longrightarrow> fst (stem_plot fig) ! k = real k * fs / real_of_int N"
    "\<And>k. k < nat (N div 2) \<Longrightarrow>
       snd (stem_plot fig) ! k =
         (if 1 \<le> k \<and> Suc k < nat (N div 2)
          then 2 * (cmod (dft_bin (signal (map (\<lambda>x. x / fs) (arange N))) k) / real_of_int N)
          else cmod (dft_bin (signal (map (\<lambda>x. x / fs) (arange N))) k) / real_of_int N)"
proof -
  let ?s = "signal (map (\<lambda>x. x / fs) (arange N))"
  let ?c = "1 / (real_of_int N * (1 / fs))"
  let ?fr = "py_slice (map (\<lambda>k. real_of_int k * ?c)
                         ([0..(N - 1) div 2] @ [- (N div 2)..- 1])) 0 (N div 2)"
  let ?m = "py_slice (map (\<lambda>z. cmod z / real_of_int N) (map (dft_bin ?s) [0..<nat N])) 0 (N div 2)"
  have N0: "0 < N" using N by simp
  have fs0: "fs \<noteq> 0" using fs by simp
  have c: "0 \<le> ?c" using N0 fs by simp
  from fit_curve_sorted [OF sorted_one_sided_freqs [OF N0 c]]
  obtain curve where fit: "fit_curve ?fr = Inr curve" ..
  let ?fig = "\<lparr> time_plot = (map (\<lambda>x. x / fs) (arange N), ?s),
                 time_markers = (N \<le> 100),
                 time_title = ''Time Domain - '' @ title,
                 stem_plot = (?fr, scale_slice 2 1 (- 1) ?m),
                 stem_fit = curve,
                 freq_title = ''Frequency Domain - '' @ title,
                 freq_xlim = (0, min (real_of_int (2 * f2)) (fs / 2)) \<rparr>"
  have m_eq: "?m = py_slice (map (\<lambda>k. cmod (dft_bin ?s k) / real_of_int N) [0..<nat N]) 0 (N div 2)"
    by (simp only: map_map comp_def)
  have lm: "length ?m = nat (N div 2)"
    unfolding m_eq by (rule length_one_sided_magnitude [OF N0])
  have 1: "analyze_spectrum signal fs N title = Inr ?fig"
    using N fs0 len fit by (rule analyze_spectrum_ok [where signal = signal])
  have 2: "length (fst (stem_plot ?fig)) = nat (N div 2)"
    using length_one_sided_freqs [OF N0] by simp
  have 3: "length (snd (stem_plot ?fig)) = nat (N div 2)"
    using lm by (simp add: length_scale_slice)
  have 4: "fst (stem_plot ?fig) ! k = real k * fs / real_of_int N" if "k < nat (N div 2)" for k
    using nth_one_sided_freqs [OF N0 that, of "\<lambda>k. real_of_int k * ?c"]
    by simp
  have 5: "snd (stem_plot ?fig) ! k =
         (if 1 \<le> k \<and> Suc k < nat (N div 2)
          then 2 * (cmod (dft_bin ?s k) / real_of_int N)
          else cmod (dft_bin ?s k) / real_of_int N)" if "k < nat (N div 2)" for k
  proof -
    have k: "k < length ?m" using that lm by simp
    have "?m ! k = cmod (dft_bin ?s k) / real_of_int N"
      unfolding m_eq by (rule nth_one_sided_magnitude [OF N0 that])
    then show ?thesis
      using nth_scale_slice_inner [OF k, of 2] lm by simp
  qed
  show thesis
    using that [OF 1 2 3 4 5] by blast
qed

text \<open>Inputs on which \<open>analyze_spectrum\<close> raises.\<close>

lemma analyze_spectrum_no_samples:
  assumes "signal (map (\<lambda>x. x / fs) (arange N)) = []"
  shows "analyze_spectrum signal fs N title = Inl ValueError"
  using assms by (simp add: analyze_spectrum_def fft_def)

lemma analyze_spectrum_one_sample:
  assumes fs: "fs \<noteq> 0" and len: "length (signal (map (\<lambda>x. x / fs) (arange 1))) = nat 1"
  shows "analyze_spectrum signal fs 1 title = Inl ValueError"
proof -
  let ?s = "signal (map (\<lambda>x. x / fs) (arange 1))"
  have ne: "?s \<noteq> []" using len by auto
  have f: "fft ?s = Inr (map (dft_bin ?s) [0..<nat 1])"
    using fft_nonempty [OF ne] len by simp
  have d: "py_truediv 1 fs = Inr (1 / fs)"
    using fs by (simp add: py_truediv_def)
  have q: "fftfreq 1 (1 / fs) = Inr (map (\<lambda>k. real_of_int k * (1 / (real_of_int 1 * (1 / fs))))
                       ([0..(1 - 1) div 2] @ [- (1 div 2)..- 1]))"
    using fs by (intro fftfreq_ok) simp_all
  have h: "(1::int) div 2 = 0" by simp
  have e: "py_slice xs 0 0 = []" for xs :: "real list"
    by (simp add: py_slice_prefix)
  show ?thesis
    by (simp only: analyze_spectrum_def Let_def f d q sum.case len length_map length_arange
          simp_thms if_False h e stem_empty)
qed

subsection \<open>The redraw on a proper session\<close>

lemma length_generate_signal: "length (generate_signal t) = length t"
  by (simp add: generate_signal_def)

lemma py_get_last: "xs \<noteq> [] \<Longrightarrow> py_get xs (- 1) = Inr (last xs)"
  by (cases xs rule: rev_cases) (simp_all add: py_get_def nat_add_distrib)

text \<open>What \<open>update_plot\<close> does when it succeeds.\<close>

lemma update_plot_ok:
  fixes st :: session
  defines "t \<equiv> map (\<lambda>x. x / real_of_int (fs_current st)) (arange (N_current st))"
  defines "fr \<equiv> map (\<lambda>k. real_of_int k * (1 / (real_of_int (N_current st) * (1 / real_of_int (fs_current st)))))
                     ([0..(N_current st - 1) div 2] @ [- (N_current st div 2)..- 1])"
  defines "m \<equiv> scale_slice 2 1 (N_current st div 2 - 1)
                  (map (\<lambda>z. cmod z / real_of_int (N_current st))
                     (py_slice (map (dft_bin (generate_signal t)) [0..<nat (N_current st)])
                        0 (N_current st div 2)))"
  assumes N: "2 \<le> N_current st" and fs: "fs_current st \<noteq> 0"
    and fit: "fit_curve (py_slice fr 0 (N_current st div 2)) = Inr curve"
  shows "update_plot st =
           Inr (st \<lparr> time_line := (t, generate_signal t),
                     sample_points :=
                       (if N_current st \<le> 100 then (t, generate_signal t) else sample_points st),
                     sample_points_visible := (N_current st \<le> 100),
                     ax1_xlim := Some (0, last t),
                     ax1_title :=
                       ''Time Domain - '' @ title_status (fs_current st)
                       @ '': Fs='' @ str_int (fs_current st)
                       @ ''Hz, N='' @ str_int (N_current st),
                     ax2_stem := (py_slice fr 0 (N_current st div 2), m),
                     ax2_fit := curve,
                     ax2_xlim :=
                       Some (0, min (real_of_int (2 * f2)) (real_of_int (fs_current st) / 2)),
                     ax2_title :=
                       ''Frequency Domain - '' @ title_status (fs_current st)
                       @ '': Fs='' @ str_int (fs_current st)
                       @ ''Hz, N='' @ str_int (N_current st),
                     draws := Suc (draws st) \<rparr>)"
proof -
  have N0: "0 < N_current st" using N by simp
  have lt: "length t = nat (N_current st)"
    by (simp add: t_def length_arange)
  then have tne: "t \<noteq> []" using N by auto
  then have ne: "generate_signal t \<noteq> []" by (simp add: generate_signal_def)
  have f: "fft (generate_signal t)
           = Inr (map (dft_bin (generate_signal t)) [0..<nat (N_current st)])"
    using fft_nonempty [OF ne] lt by (simp add: length_generate_signal)
  have d: "py_truediv 1 (real_of_int (fs_current st)) = Inr (1 / real_of_int (fs_current st))"
    using fs by (simp add: py_truediv_def)
  have q: "fftfreq (N_current st) (1 / real_of_int (fs_current st)) = Inr fr"
    unfolding fr_def using N0 fs by (intro fftfreq_ok) simp_all
  have g: "py_get t (- 1) = Inr (last t)"
    by (rule py_get_last [OF tne])
  have lF: "length (py_slice fr 0 (N_current st div 2)) = nat (N_current st div 2)"
    unfolding fr_def by (rule length_one_sided_freqs [OF N0])
  have lM: "length m = nat (N_current st div 2)"
    unfolding m_def length_scale_slice length_map by (rule length_one_sided_magnitude [OF N0])
  have "0 < nat (N_current st div 2)" using N by simp
  then have Fne: "py_slice fr 0 (N_current st div 2) \<noteq> []" using lF by auto
  have s: "stem (py_slice fr 0 (N_current st div 2)) m = Inr (py_slice fr 0 (N_current st div 2), m)"
    by (rule stem_ok [OF Fne]) (simp only: lF lM)
  have "update_plot st =
       Inr (st \<lparr> time_line := (t, generate_signal t),
                  sample_points :=
                    (if N_current st \<le> 100 then (t, generate_signal t) else sample_points st),
                  sample_points_visible := (N_current st \<le> 100) \<rparr>
               \<lparr> ax1_xlim := Some (0, last t),
                 ax2_stem := ([], []), ax2_fit := None,
                 ax2_xlim := None, ax2_title := [] \<rparr>
               \<lparr> ax2_stem := (py_slice fr 0 (N_current st div 2), m) \<rparr>
               \<lparr> ax2_fit := curve,
                 ax2_xlim :=
                   Some (0, min (real_of_int (2 * f2)) (real_of_int (fs_current st) / 2)),
                 ax1_title :=
                   ''Time Domain - '' @ title_status (fs_current st)
                   @ '': Fs='' @ str_int (fs_current st)
                   @ ''Hz, N='' @ str_int (N_current st),
                 ax2_title :=
                   ''Frequency Domain - '' @ title_status (fs_current st)
                   @ '': Fs='' @ str_int (fs_current st)
                   @ ''Hz, N='' @ str_int (N_current st),
                 draws := Suc (draws st) \<rparr>)"
    by (simp only: update_plot_def Let_def t_def [symmetric] f sum.case d q g
          m_def [symmetric] s fit)
  then show ?thesis by simp
qed

text \<open>
  Whatever \<open>update_plot\<close> does, it leaves the parameters, the printed lines, the files
  and the window alone; it counts one more drawing exactly when it succeeds, and then
  both titles carry the status label.
\<close>

lemma update_plot_frame_all:
  "case update_plot st of
     Inl (e, st') \<Rightarrow>
       fs_current st' = fs_current st \<and> N_current st' = N_current st \<and>
       saved st' = saved st \<and> printed st' = printed st \<and> closed st' = closed st \<and>
       draws st' = draws st
   | Inr st' \<Rightarrow>
       fs_current st' = fs_current st \<and> N_current st' = N_current st \<and>
       saved st' = saved st \<and> printed st' = printed st \<and> closed st' = closed st \<and>
       draws st' = Suc (draws st) \<and>
       ax1_title st' = ''Time Domain - '' @ title_status (fs_current st)
         @ '': Fs='' @ str_int (fs_current st) @ ''Hz, N='' @ str_int (N_current st) \<and>
       ax2_title st' = ''Frequency Domain - '' @ title_status (fs_current st)
         @ '': Fs='' @ str_int (fs_current st) @ ''Hz, N='' @ str_int (N_current st)"
proof (cases "fft (generate_signal (map (\<lambda>x. x / real_of_int (fs_current st)) (arange (N_current st))))")
  case (Inl e)
  then show ?thesis by (simp add: update_plot_def Let_def)
next
  case f: (Inr spectrum)
  show ?thesis
  proof (cases "py_truediv 1 (real_of_int (fs_current st))")
    case (Inl e)
    with f show ?thesis by (simp add: update_plot_def Let_def)
  next
    case d: (Inr d)
    show ?thesis
    proof (cases "fftfreq (N_current st) d")
      case (Inl e)
      with f d show ?thesis by (simp add: update_plot_def Let_def)
    next
      case q: (Inr fr)
      show ?thesis
      proof (cases "py_get (map (\<lambda>x. x / real_of_int (fs_current st)) (arange (N_current st))) (- 1)")
        case (Inl e)
        with f d q show ?thesis by (simp add: update_plot_def Let_def)
      next
        case g: (Inr t_last)
        show ?thesis
        proof (cases "stem (py_slice fr 0 (N_current st div 2))
                        (scale_slice 2 1 (N_current st div 2 - 1)
                           (map (\<lambda>z. cmod z / real_of_int (N_current st))
                              (py_slice spectrum 0 (N_current st div 2))))")
          case (Inl e)
          with f d q g show ?thesis by (simp add: update_plot_def Let_def)
        next
          case s: (Inr drawn)
          show ?thesis
          proof (cases "fit_curve (py_slice fr 0 (N_current st div 2))")
            case (Inl e)
            with f d q g s show ?thesis by (simp add: update_plot_def Let_def)
          next
            case (Inr curve)
            with f d q g s show ?thesis by (simp add: update_plot_def Let_def)
          qed
        qed
      qed
    qed
  qed
qed

lemma update_plot_frame:
  assumes "update_plot st = Inr st'"
  shows "fs_current st' = fs_current st \<and> N_current st' = N_current st \<and>
    saved st' = saved st \<and> printed st' = printed st \<and> closed st' = closed st \<and>
    draws st' = Suc (draws st)"
  using update_plot_frame_all [of st] assms by simp

lemma update_plot_titles:
  assumes "update_plot st = Inr st'"
  shows "ax1_title st' = ''Time Domain - '' @ title_status (fs_current st)
         @ '': Fs='' @ str_int (fs_current st) @ ''Hz, N='' @ str_int (N_current st) \<and>
       ax2_title st' = ''Frequency Domain - '' @ title_status (fs_current st)
         @ '': Fs='' @ str_int (fs_current st) @ ''Hz, N='' @ str_int (N_current st)"
  using update_plot_frame_all [of st] assms by simp

lemma update_plot_frame_raised:
  assumes "update_plot st = Inl (e, st')"
  shows "fs_current st' = fs_current st \<and> N_current st' = N_current st \<and>
    saved st' = saved st \<and> printed st' = printed st \<and> closed st' = closed st \<and>
    draws st' = draws st"
  using update_plot_frame_all [of st] assms by simp

text \<open>
  The spectrum \<open>update_plot\<close> draws, and what it leaves alone. The explicit stop index
  \<open>half_point - 1\<close> selects the same positions as the \<open>-1\<close> of \<open>analyze_spectrum\<close>.
\<close>

lemma update_plot_bins:
  assumes N: "2 \<le> N_current st" and fs: "0 < fs_current st"
  obtains st' where
    "update_plot st = Inr st'"
    "fs_current st' = fs_current st" "N_current st' = N_current st"
    "saved st' = saved st" "printed st' = printed st" "closed st' = closed st"
    "draws st' = Suc (draws st)"
    "ax1_title st' = ''Time Domain - '' @ title_status (fs_current st)
        @ '': Fs='' @ str_int (fs_current st) @ ''Hz, N='' @ str_int (N_current st)"
    "ax2_title st' = ''Frequency Domain - '' @ title_status (fs_current st)
        @ '': Fs='' @ str_int (fs_current st) @ ''Hz, N='' @ str_int (N_current st)"
    "length (fst (ax2_stem st')) = nat (N_current st div 2)"
    "length (snd (ax2_stem st')) = nat (N_current st div 2)"
    "\<And>k. k < nat (N_current st div 2) \<Longrightarrow>
       fst (ax2_stem st') ! k = real k * real_of_int (fs_current st) / real_of_int (N_current st)"
    "\<And>k. k < nat (N_current st div 2) \<Longrightarrow>
       snd (ax2_stem st') ! k =
         (if 1 \<le> k \<and> Suc k < nat (N_current st div 2)
          then 2 * (cmod (dft_bin (generate_signal
                 (map (\<lambda>x. x / real_of_int (fs_current st)) (arange (N_current st)))) k)
                 / real_of_int (N_current st))
          else cmod (dft_bin (generate_signal
                 (map (\<lambda>x. x / real_of_int (fs_current st)) (arange (N_current st)))) k)
                 / real_of_int (N_current st))"
proof -
  let ?N = "N_current st"
  let ?fs = "real_of_int (fs_current st)"
  let ?t = "map (\<lambda>x. x / ?fs) (arange ?N)"
  let ?s = "generate_signal ?t"
  let ?fr = "py_slice (map (\<lambda>k. real_of_int k * (1 / (real_of_int ?N * (1 / ?fs))))
                         ([0..(?N - 1) div 2] @ [- (?N div 2)..- 1])) 0 (?N div 2)"
  let ?m = "map (\<lambda>z. cmod z / real_of_int ?N)
              (py_slice (map (dft_bin ?s) [0..<nat ?N]) 0 (?N div 2))"
  have N0: "0 < N_current st" using N by simp
  have fs0: "fs_current st \<noteq> 0" using fs by simp
  have c: "0 \<le> 1 / (real_of_int ?N * (1 / ?fs))" using N0 fs by simp
  from fit_curve_sorted [OF sorted_one_sided_freqs [OF N0 c]]
  obtain curve where fit: "fit_curve ?fr = Inr curve" ..
  define st' where "st' = st \<lparr> time_line := (?t, ?s),
                     sample_points := (if ?N \<le> 100 then (?t, ?s) else sample_points st),
                     sample_points_visible := (?N \<le> 100),
                     ax1_xlim := Some (0, last ?t),
                     ax1_title :=
                       ''Time Domain - '' @ title_status (fs_current st)
                       @ '': Fs='' @ str_int (fs_current st)
                       @ ''Hz, N='' @ str_int ?N,
                     ax2_stem := (?fr, scale_slice 2 1 (?N div 2 - 1) ?m),
                     ax2_fit := curve,
                     ax2_xlim := Some (0, min (real_of_int (2 * f2)) (?fs / 2)),
                     ax2_title :=
                       ''Frequency Domain - '' @ title_status (fs_current st)
                       @ '': Fs='' @ str_int (fs_current st)
                       @ ''Hz, N='' @ str_int ?N,
                     draws := Suc (draws st) \<rparr>"
  have half: "0 \<le> ?N div 2" using N0 by simp
  have lm: "length ?m = nat (?N div 2)"
    using length_one_sided_magnitude [OF N0, of "dft_bin ?s"] by simp
  then have stop: "?N div 2 - 1 = int (length ?m) - 1"
    using half by simp
  have sc: "scale_slice 2 1 (?N div 2 - 1) ?m = scale_slice 2 1 (- 1) ?m"
    by (subst stop) (rule scale_slice_explicit_stop)
  have 1: "update_plot st = Inr st'"
    unfolding st'_def by (rule update_plot_ok [OF N fs0 fit])
  have stem: "ax2_stem st' = (?fr, scale_slice 2 1 (- 1) ?m)"
    by (simp add: st'_def sc)
  have 2: "length (fst (ax2_stem st')) = nat (?N div 2)"
    unfolding stem fst_conv by (rule length_one_sided_freqs [OF N0])
  have 3: "length (snd (ax2_stem st')) = nat (?N div 2)"
    unfolding stem snd_conv using lm by (simp only: length_scale_slice)
  have 4: "fst (ax2_stem st') ! k = real k * ?fs / real_of_int ?N" if "k < nat (?N div 2)" for k
    unfolding stem fst_conv
    using nth_one_sided_freqs [OF N0 that, of "\<lambda>k. real_of_int k * (1 / (real_of_int ?N * (1 / ?fs)))"]
    by simp
  have 5: "snd (ax2_stem st') ! k =
         (if 1 \<le> k \<and> Suc k < nat (?N div 2)
          then 2 * (cmod (dft_bin ?s k) / real_of_int ?N)
          else cmod (dft_bin ?s k) / real_of_int ?N)" if "k < nat (?N div 2)" for k
  proof -
    have k: "k < length ?m" using that lm by simp
    have "py_slice (map (dft_bin ?s) [0..<nat ?N]) 0 (?N div 2) ! k = dft_bin ?s k"
      by (rule nth_one_sided_magnitude [OF N0 that])
    moreover have "k < length (py_slice (map (dft_bin ?s) [0..<nat ?N]) 0 (?N div 2))"
      using k by simp
    ultimately have "?m ! k = cmod (dft_bin ?s k) / real_of_int ?N"
      by (simp only: nth_map)
    then show ?thesis
      unfolding stem snd_conv using nth_scale_slice_inner [OF k, of 2] lm by simp
  qed
  show thesis
    using that [OF 1 _ _ _ _ _ _ _ _ 2 3 4 5] by (simp add: st'_def)
qed

section \<open>The signal generator and the spectrum analyzer\<close>




subsection \<open>Degenerate and concrete inputs\<close>

lemma arange_5: "arange 5 = [0, 1, 2, 3, 4]"
  by (simp add: arange_def upto.simps)

lemma two_elements: "length xs = 2 \<Longrightarrow> xs = [xs ! 0, xs ! 1]"
  by (cases xs; cases "tl xs") auto

text \<open>
  C1. Stated property: for a sampled signal of length \<open>N \<ge> 2\<close> every retained bin is
  doubled except index 0 and, when \<open>N\<close> is even, the last retained bin; so for odd \<open>N\<close>
  every retained bin except index 0 is doubled. The source's slice \<open>magnitude[1:-1]\<close>
  stops before the last retained bin whatever the parity of \<open>N\<close>, although its comment
  excludes only the DC and Nyquist bins. The analyzer is evaluated here at \<open>N = 5\<close>,
  \<open>fs = 1\<close> and a unit impulse at \<open>t = 0\<close>, whose transform is 1 in every bin: the two
  retained magnitudes are both \<open>1/5\<close>, so bin 1 is not doubled.
\<close>

theorem odd_length_last_bin_not_doubled:
  "\<exists>fig. analyze_spectrum (\<lambda>ts. map (\<lambda>x. if x = 0 then 1 else 0) ts) 1 5 [] = Inr fig
     \<and> stem_plot fig = ([0, 1 / 5], [1 / 5, 1 / 5])
     \<and> snd (stem_plot fig) ! 1 = cmod (dft_bin [1, 0, 0, 0, 0] 1) / 5
     \<and> snd (stem_plot fig) ! 1 \<noteq> 2 * (cmod (dft_bin [1, 0, 0, 0, 0] 1) / 5)"
proof -
  let ?signal = "\<lambda>ts::real list. map (\<lambda>x. if x = 0 then 1 else 0 :: real) ts"
  have s: "?signal (map (\<lambda>x. x / 1) (arange 5)) = [1, 0, 0, 0, 0]"
    by (simp add: arange_5)
  have len: "length (?signal (map (\<lambda>x. x / 1) (arange 5))) = nat 5"
    by (simp add: length_arange)
  have d0: "dft_bin [1, 0, 0, 0, 0] 0 = 1" and d1: "dft_bin [1, 0, 0, 0, 0] 1 = 1"
    by (simp_all add: dft_bin_def upt_rec_numeral)
  have n2: "nat (5 div 2) = 2" by simp
  from analyze_spectrum_bins [where signal = ?signal and N = 5 and fs = 1 and title = "[]", OF _ _ len]
  obtain fig where fig:
    "analyze_spectrum ?signal 1 5 [] = Inr fig"
    "length (fst (stem_plot fig)) = 2"
    "length (snd (stem_plot fig)) = 2"
    "\<And>k. k < 2 \<Longrightarrow> fst (stem_plot fig) ! k = real k * 1 / real_of_int 5"
    "\<And>k. k < 2 \<Longrightarrow>
       snd (stem_plot fig) ! k =
         (if 1 \<le> k \<and> Suc k < 2
          then 2 * (cmod (dft_bin [1, 0, 0, 0, 0] k) / real_of_int 5)
          else cmod (dft_bin [1, 0, 0, 0, 0] k) / real_of_int 5)"
    unfolding n2 s by (simp only: numeral_le_iff semiring_norm zero_less_one) blast
  have f0: "fst (stem_plot fig) ! 0 = 0" and f1: "fst (stem_plot fig) ! 1 = 1 / 5"
    using fig(4) [of 0] fig(4) [of 1] by simp_all
  have f: "fst (stem_plot fig) = [0, 1 / 5]"
    by (subst two_elements [OF fig(2)]) (simp only: f0 f1)
  have m0: "snd (stem_plot fig) ! 0 = 1 / 5" and m1: "snd (stem_plot fig) ! 1 = 1 / 5"
    using fig(5) [of 0] fig(5) [of 1] d0 d1 by simp_all
  have m: "snd (stem_plot fig) = [1 / 5, 1 / 5]"
    by (subst two_elements [OF fig(3)]) (simp only: m0 m1)
  have "stem_plot fig = ([0, 1 / 5], [1 / 5, 1 / 5])"
    using f m by (simp add: prod_eq_iff)
  moreover have "snd (stem_plot fig) ! 1 = cmod (dft_bin [1, 0, 0, 0, 0] 1) / 5"
    using m1 d1 by simp
  moreover have "snd (stem_plot fig) ! 1 \<noteq> 2 * (cmod (dft_bin [1, 0, 0, 0, 0] 1) / 5)"
    using m1 d1 by simp
  ultimately show ?thesis using fig(1) by blast
qed

text \<open>
  C9, as stated for every \<open>N < 2\<close>, does not hold: at \<open>N = 0\<close> the time axis and the
  samples are empty and the transform rejects them.
\<close>

theorem analyzer_rejects_zero_samples:
  "analyze_spectrum generate_signal 4000 0 [] = Inl ValueError"
  by (rule analyze_spectrum_no_samples) (simp add: arange_empty generate_signal_def)

text \<open>
  C9, amended. For every sample count \<open>N < 2\<close>, with \<open>fs > 0\<close>, the analyzer raises a
  ValueError and returns no spectrum. For \<open>N \<le> 0\<close> there are no samples and the transform
  rejects them. For \<open>N = 1\<close> the retained half \<open>[:N//2]\<close> is empty, of length
  \<open>floor(1/2) = 0\<close>, and the doubling of its inner slice is well defined and leaves it
  empty, but drawing the empty stem plot raises.
\<close>

theorem degenerate_sample_counts:
  "(N < 2 \<and> 0 < fs \<and> (\<forall>ts. length (signal ts) = length ts) \<longrightarrow>
      analyze_spectrum signal fs N title = Inl ValueError)
   \<and> py_slice (xs :: real list) 0 (1 div 2) = []
   \<and> scale_slice 2 1 (- 1) [] = []"
proof (intro conjI impI)
  assume a: "N < 2 \<and> 0 < fs \<and> (\<forall>ts. length (signal ts) = length ts)"
  show "analyze_spectrum signal fs N title = Inl ValueError"
  proof (cases "N \<le> 0")
    case True
    with a have "length (signal (map (\<lambda>x. x / fs) (arange N))) = 0"
      by (simp add: arange_empty)
    then have "signal (map (\<lambda>x. x / fs) (arange N)) = []"
      by simp
    then show ?thesis
      by (rule analyze_spectrum_no_samples)
  next
    case False
    with a have N: "N = 1" by simp
    from a have fs: "fs \<noteq> 0"
      and len: "length (signal (map (\<lambda>x. x / fs) (arange 1))) = nat 1"
      by (simp_all add: length_arange)
    show ?thesis
      unfolding N using fs len by (rule analyze_spectrum_one_sample)
  qed
next
  show "py_slice xs 0 (1 div 2) = []"
    by (simp add: py_slice_prefix)
next
  show "scale_slice 2 1 (- 1) [] = []"
    by (simp add: scale_slice_def py_slice_def)
qed

theorem degenerate_sample_counts_witness:
  "analyze_spectrum generate_signal 4000 1 [] = Inl ValueError
   \<and> analyze_spectrum generate_signal 4000 (- 3) [] = Inl ValueError"
proof -
  have g: "\<forall>ts. length (generate_signal ts) = length ts"
    by (simp add: length_generate_signal)
  show ?thesis
    using degenerate_sample_counts [of 1 4000 generate_signal "[]"]
      degenerate_sample_counts [of "- 3" 4000 generate_signal "[]"] g
    by simp
qed

text \<open>
  C2. For every sequence of time values, the empty one included, \<open>generate_signal\<close>
  returns one value per time value, the value at \<open>t\<close> being
  \<open>cos(2\<pi> \<cdot> 1000 \<cdot> t + \<pi>/4) + cos(2\<pi> \<cdot> 1100 \<cdot> t)\<close>. It is a function of its argument alone
  and has no error result.
\<close>

theorem generate_signal_elementwise:
  "length (generate_signal t) = length t
   \<and> (\<forall>i < length t.
         generate_signal t ! i
           = cos (2 * pi * 1000 * (t ! i) + pi / 4) + cos (2 * pi * 1100 * (t ! i)))
   \<and> generate_signal [] = []"
  by (simp add: generate_signal_def f1_def f2_def phase_def)

theorem generate_signal_elementwise_witness:
  "length (generate_signal [0, 1 / 1000]) = 2
   \<and> generate_signal [0, 1 / 1000] ! 0 = cos (pi / 4) + 1
   \<and> generate_signal [0, 1 / 1000] ! 1 = cos (2 * pi + pi / 4) + cos (2 * pi * 1100 / 1000)"
  using generate_signal_elementwise [of "[0, 1 / 1000]"] by (simp add: nth_Cons')

section \<open>The interactive session\<close>

subsection \<open>The key handler\<close>

lemma redraw_frame_conj:
  "fs_current (fst (redraw st)) = fs_current st \<and> N_current (fst (redraw st)) = N_current st \<and>
   saved (fst (redraw st)) = saved st \<and> printed (fst (redraw st)) = printed st \<and>
   closed (fst (redraw st)) = closed st"
proof (cases "update_plot st")
  case (Inl r)
  obtain e st' where r: "r = (e, st')" by (cases r)
  with Inl have "fst (redraw st) = st'" by (simp add: redraw_def)
  with update_plot_frame_raised [OF Inl [unfolded r]] show ?thesis by simp
next
  case (Inr st')
  then have "fst (redraw st) = st'" by (simp add: redraw_def)
  with update_plot_frame [OF Inr] show ?thesis by simp
qed

lemma redraw_frame:
  "fs_current (fst (redraw st)) = fs_current st" "N_current (fst (redraw st)) = N_current st"
  "saved (fst (redraw st)) = saved st" "printed (fst (redraw st)) = printed st"
  "closed (fst (redraw st)) = closed st"
  using redraw_frame_conj [of st] by simp_all

lemma redraw_ok:
  assumes "2 \<le> N_current st" and "0 < fs_current st"
  shows "snd (redraw st) = None" "update_plot st = Inr (fst (redraw st))"
    "draws (fst (redraw st)) = Suc (draws st)"
proof -
  have "\<exists>st'. update_plot st = Inr st'"
    by (rule update_plot_bins [OF assms]) (rule exI)
  then obtain st' where st': "update_plot st = Inr st'" ..
  then show "snd (redraw st) = None" and 2: "update_plot st = Inr (fst (redraw st))"
    by (simp_all add: redraw_def)
  show "draws (fst (redraw st)) = Suc (draws st)"
    using update_plot_frame [OF 2] by simp
qed

text \<open>With a single sample the redraw raises after the time-domain lines were updated.\<close>

lemma redraw_one_sample:
  assumes N: "N_current st = 1" and fs: "fs_current st \<noteq> 0"
  shows "snd (redraw st) = Some ValueError" "draws (fst (redraw st)) = draws st"
    "time_line (fst (redraw st)) = ([0], generate_signal [0])"
proof -
  have t: "map (\<lambda>x. x / real_of_int (fs_current st)) (arange 1) = [0]"
    by (simp add: arange_def upto.simps)
  have f: "fft (generate_signal [0]) = Inr (map (dft_bin (generate_signal [0])) [0..<1])"
    using fft_nonempty [of "generate_signal [0]"] by (simp add: generate_signal_def)
  have d: "py_truediv 1 (real_of_int (fs_current st)) = Inr (1 / real_of_int (fs_current st))"
    using fs by (simp add: py_truediv_def)
  have q: "fftfreq 1 (1 / real_of_int (fs_current st))
             = Inr (map (\<lambda>k. real_of_int k * (1 / (real_of_int 1 * (1 / real_of_int (fs_current st)))))
                       ([0..(1 - 1) div 2] @ [- (1 div 2)..- 1]))"
    using fs by (intro fftfreq_ok) simp_all
  have g: "py_get [0::real] (- 1) = Inr 0" by (simp add: py_get_def)
  have h: "(1::int) div 2 = 0" by simp
  have e: "py_slice xs 0 0 = []" for xs :: "'a list"
    by (simp add: py_slice_def slice_bound_def)
  have u: "update_plot st =
      Inl (ValueError,
           st \<lparr> time_line := ([0], generate_signal [0]),
                sample_points := (if (1::int) \<le> 100 then ([0], generate_signal [0]) else sample_points st),
                sample_points_visible := ((1::int) \<le> 100) \<rparr>
              \<lparr> ax1_xlim := Some (0, 0), ax2_stem := ([], []), ax2_fit := None,
                ax2_xlim := None, ax2_title := [] \<rparr>)"
    by (simp only: update_plot_def Let_def t N f d q g h e sum.case stem_empty)
  show "snd (redraw st) = Some ValueError" "draws (fst (redraw st)) = draws st"
    "time_line (fst (redraw st)) = ([0], generate_signal [0])"
    by (simp_all add: redraw_def u)
qed

lemma on_key_fs:
  "fs_current (fst (on_key k st)) =
     (if k = Some ''up'' then fs_current st + fs_step
      else if k = Some ''down'' \<and> fs_step < fs_current st then fs_current st - fs_step
      else fs_current st)"
  by (simp add: on_key_def redraw_frame Let_def)

lemma on_key_N:
  "N_current (fst (on_key k st)) =
     (if k = Some ''right'' then N_current st + N_step
      else if k = Some ''left'' \<and> N_step < N_current st then N_current st - N_step
      else N_current st)"
  by (simp add: on_key_def redraw_frame Let_def)

lemma on_key_closed: "closed (fst (on_key k st)) = (closed st \<or> k = Some ''q'')"
  by (simp add: on_key_def redraw_frame Let_def)

lemma on_key_saved:
  "saved (fst (on_key k st)) =
     (if k = Some ''s''
      then saved st @ [''experiment_fs_'' @ str_int (fs_current st) @ ''_N_''
                       @ str_int (N_current st) @ ''.png'']
      else saved st)"
  by (simp add: on_key_def redraw_frame Let_def)

text \<open>The branches of \<open>on_key\<close> that reach the call of \<open>update_plot()\<close>.\<close>

lemma on_key_redraws:
  assumes "k = Some ''up'' \<or> (k = Some ''down'' \<and> fs_step < fs_current st)
           \<or> k = Some ''right'' \<or> (k = Some ''left'' \<and> N_step < N_current st)
           \<or> k = Some ''s''"
  shows "\<exists>st1. on_key k st = redraw st1 \<and> draws st1 = draws st
           \<and> fs_current st1 = fs_current (fst (on_key k st))
           \<and> N_current st1 = N_current (fst (on_key k st))"
proof -
  consider "k = Some ''up''" | "k = Some ''down''" "fs_step < fs_current st"
    | "k = Some ''right''" | "k = Some ''left''" "N_step < N_current st" | "k = Some ''s''"
    using assms by blast
  then show ?thesis
  proof cases
    case 1
    show ?thesis
      unfolding on_key_fs on_key_N
      by (rule exI [of _ "st \<lparr> fs_current := fs_current st + fs_step,
            printed := printed st @ [''Sampling frequency increased to: ''
              @ str_int (fs_current st + fs_step) @ ''Hz''] \<rparr>"])
         (simp add: 1 on_key_def Let_def)
  next
    case 2
    show ?thesis
      unfolding on_key_fs on_key_N
      by (rule exI [of _ "st \<lparr> fs_current := fs_current st - fs_step,
            printed := printed st @ [''Sampling frequency decreased to: ''
              @ str_int (fs_current st - fs_step) @ ''Hz''] \<rparr>"])
         (simp add: 2 on_key_def Let_def)
  next
    case 3
    show ?thesis
      unfolding on_key_fs on_key_N
      by (rule exI [of _ "st \<lparr> N_current := N_current st + N_step,
            printed := printed st @ [''Sample count increased to: ''
              @ str_int (N_current st + N_step)] \<rparr>"])
         (simp add: 3 on_key_def Let_def)
  next
    case 4
    show ?thesis
      unfolding on_key_fs on_key_N
      by (rule exI [of _ "st \<lparr> N_current := N_current st - N_step,
            printed := printed st @ [''Sample count decreased to: ''
              @ str_int (N_current st - N_step)] \<rparr>"])
         (simp add: 4 on_key_def Let_def)
  next
    case 5
    show ?thesis
      unfolding on_key_fs on_key_N
      by (rule exI [of _ "st \<lparr> saved := saved st @ [''experiment_fs_'' @ str_int (fs_current st)
              @ ''_N_'' @ str_int (N_current st) @ ''.png''],
            printed := printed st @ [''Image saved as: '' @ ''experiment_fs_''
              @ str_int (fs_current st) @ ''_N_'' @ str_int (N_current st) @ ''.png''] \<rparr>"])
         (simp add: 5 on_key_def Let_def)
  qed
qed

lemma on_key_returns:
  assumes "\<not> (k = Some ''up'' \<or> (k = Some ''down'' \<and> fs_step < fs_current st)
           \<or> k = Some ''right'' \<or> (k = Some ''left'' \<and> N_step < N_current st)
           \<or> k = Some ''s'')"
  shows "on_key k st = (if k = Some ''q'' then st \<lparr> closed := True \<rparr> else st, None)"
  using assms by (auto simp add: on_key_def)

subsection \<open>Reachable sessions\<close>

lemma session0_parameters: "fs_current session0 = 4000" "N_current session0 = 1000"
  "closed session0 = False" "draws session0 = 0" "saved session0 = []"
  by (simp_all add: session0_def fs_init_def N_init_def)

lemma interactive_experiment_ok:
  "snd interactive_experiment = None"
  "fs_current (fst interactive_experiment) = 4000"
  "N_current (fst interactive_experiment) = 1000"
  "closed (fst interactive_experiment) = False"
  "draws (fst interactive_experiment) = 1"
  unfolding interactive_experiment_def
  by (simp_all add: redraw_ok redraw_frame session0_parameters)

lemma reachable_start: "reachable (fst interactive_experiment)"
  by (rule reachable.start) (simp add: prod_eq_iff interactive_experiment_ok)

lemma reachable_steps:
  assumes "reachable st"
  shows "0 < fs_current st \<and> fs_current st mod 500 = 0
         \<and> 0 < N_current st \<and> N_current st mod 100 = 0"
  using assms
proof (induction rule: reachable.induct)
  case (start st)
  then have "st = fst interactive_experiment" by (metis fst_conv)
  then show ?case by (simp add: interactive_experiment_ok)
next
  case (key st k)
  then have fs: "0 < fs_current st" "fs_current st mod 500 = 0"
    and N: "0 < N_current st" "N_current st mod 100 = 0"
    by simp_all
  have "0 < fs_current (fst (on_key k st)) \<and> fs_current (fst (on_key k st)) mod 500 = 0"
    using fs by (auto simp: on_key_fs fs_step_def; presburger)
  moreover have "0 < N_current (fst (on_key k st)) \<and> N_current (fst (on_key k st)) mod 100 = 0"
    using N by (auto simp: on_key_N N_step_def; presburger)
  ultimately show ?case by simp
qed

lemma reachable_bounds:
  assumes "reachable st"
  shows "0 < fs_current st" "100 \<le> N_current st"
proof -
  from reachable_steps [OF assms] show "0 < fs_current st" by simp
  from reachable_steps [OF assms] have "0 < N_current st" "100 dvd N_current st"
    by (simp_all add: mod_eq_0_iff_dvd)
  then show "100 \<le> N_current st" by (simp add: zdvd_imp_le)
qed

lemma floor_step:
  fixes s x :: int
  assumes s: "0 < s" and x: "0 < x" and dv: "x mod s = 0"
  shows "(if s < max s (x - int n * s) then max s (x - int n * s) - s
          else max s (x - int n * s)) = max s (x - int (Suc n) * s)"
proof -
  from dv obtain m where m: "x = s * m" by (auto simp: mod_eq_0_iff_dvd)
  have eq: "x - int n * s = s * (m - int n)" "x - int (Suc n) * s = s * (m - int n - 1)"
    by (simp_all add: m algebra_simps)
  show ?thesis
  proof (cases "2 \<le> m - int n")
    case True
    then have "s * 2 \<le> s * (m - int n)" using s by (simp only: mult_le_cancel_left_pos)
    moreover have "s * (m - int n - 1) = s * (m - int n) - s" by (simp add: algebra_simps)
    ultimately show ?thesis unfolding eq using s by (simp add: max_def)
  next
    case False
    then have "m - int n \<le> 1" by simp
    then have "s * (m - int n) \<le> s * 1" using s by (simp only: mult_le_cancel_left_pos)
    moreover have "s * (m - int n - 1) = s * (m - int n) - s" by (simp add: algebra_simps)
    ultimately show ?thesis unfolding eq using s by (simp add: max_def)
  qed
qed

text \<open>Pressing \<open>down\<close> or \<open>left\<close> repeatedly stops at one step.\<close>

lemma reachable_after_downs:
  assumes "reachable st" and "\<not> closed st"
  shows "reachable (((\<lambda>s. fst (on_key (Some ''down'') s)) ^^ n) st)
         \<and> \<not> closed (((\<lambda>s. fst (on_key (Some ''down'') s)) ^^ n) st)
         \<and> N_current (((\<lambda>s. fst (on_key (Some ''down'') s)) ^^ n) st) = N_current st
         \<and> fs_current (((\<lambda>s. fst (on_key (Some ''down'') s)) ^^ n) st)
             = max fs_step (fs_current st - int n * fs_step)"
proof (induction n)
  case 0
  from reachable_steps [OF assms(1)] have "fs_step \<le> fs_current st"
    unfolding fs_step_def by (simp add: zdvd_imp_le mod_eq_0_iff_dvd)
  with assms show ?case by simp
next
  case (Suc n)
  let ?s = "((\<lambda>s. fst (on_key (Some ''down'') s)) ^^ n) st"
  from Suc have r: "reachable ?s" and c: "\<not> closed ?s" and N: "N_current ?s = N_current st"
    and fs: "fs_current ?s = max fs_step (fs_current st - int n * fs_step)"
    by simp_all
  from reachable_steps [OF assms(1)] have m: "0 < fs_current st" "fs_current st mod 500 = 0"
    by simp_all
  have "fs_current (fst (on_key (Some ''down'') ?s))
          = max fs_step (fs_current st - int (Suc n) * fs_step)"
    unfolding on_key_fs fs using floor_step [of fs_step "fs_current st" n] m
    by (simp add: fs_step_def)
  moreover have "reachable (fst (on_key (Some ''down'') ?s))"
    by (rule reachable.key [OF r c])
  moreover have "\<not> closed (fst (on_key (Some ''down'') ?s))"
    using c by (simp add: on_key_closed)
  moreover have "N_current (fst (on_key (Some ''down'') ?s)) = N_current st"
    using N by (simp add: on_key_N)
  ultimately show ?case by simp
qed

lemma reachable_after_lefts:
  assumes "reachable st" and "\<not> closed st"
  shows "reachable (((\<lambda>s. fst (on_key (Some ''left'') s)) ^^ n) st)
         \<and> \<not> closed (((\<lambda>s. fst (on_key (Some ''left'') s)) ^^ n) st)
         \<and> fs_current (((\<lambda>s. fst (on_key (Some ''left'') s)) ^^ n) st) = fs_current st
         \<and> N_current (((\<lambda>s. fst (on_key (Some ''left'') s)) ^^ n) st)
             = max N_step (N_current st - int n * N_step)"
proof (induction n)
  case 0
  from reachable_steps [OF assms(1)] have "N_step \<le> N_current st"
    unfolding N_step_def by (simp add: zdvd_imp_le mod_eq_0_iff_dvd)
  with assms show ?case by simp
next
  case (Suc n)
  let ?s = "((\<lambda>s. fst (on_key (Some ''left'') s)) ^^ n) st"
  from Suc have r: "reachable ?s" and c: "\<not> closed ?s" and fs: "fs_current ?s = fs_current st"
    and N: "N_current ?s = max N_step (N_current st - int n * N_step)"
    by simp_all
  from reachable_steps [OF assms(1)] have m: "0 < N_current st" "N_current st mod 100 = 0"
    by simp_all
  have "N_current (fst (on_key (Some ''left'') ?s))
          = max N_step (N_current st - int (Suc n) * N_step)"
    unfolding on_key_N N using floor_step [of N_step "N_current st" n] m
    by (simp add: N_step_def)
  moreover have "reachable (fst (on_key (Some ''left'') ?s))"
    by (rule reachable.key [OF r c])
  moreover have "\<not> closed (fst (on_key (Some ''left'') ?s))"
    using c by (simp add: on_key_closed)
  moreover have "fs_current (fst (on_key (Some ''left'') ?s)) = fs_current st"
    using fs by (simp add: on_key_fs)
  ultimately show ?case by simp
qed

text \<open>
  C10. In the interactive session, started at \<open>fs = 4000\<close>, \<open>N = 1000\<close> with steps 500 and
  100, every reachable session has a sampling frequency that is a positive multiple of
  500 and a sample count that is a positive multiple of 100. The sample count is
  therefore always even: \<open>update_plot\<close> is never run on an odd \<open>N\<close>.
\<close>

theorem reachable_parameters_are_step_multiples:
  assumes "reachable st"
  shows "0 < fs_current st \<and> 500 dvd fs_current st
         \<and> 0 < N_current st \<and> 100 dvd N_current st \<and> even (N_current st)"
proof -
  from reachable_steps [OF assms]
  have fs: "0 < fs_current st" "500 dvd fs_current st"
    and N: "0 < N_current st" "100 dvd N_current st"
    by (simp_all add: mod_eq_0_iff_dvd)
  have "(2::int) dvd 100" by simp
  then have "even (N_current st)" using N(2) by (rule dvd_trans)
  with fs N show ?thesis by simp
qed

theorem reachable_parameters_are_step_multiples_witness:
  "reachable (fst (on_key (Some ''right'') (fst interactive_experiment)))
   \<and> fs_current (fst (on_key (Some ''right'') (fst interactive_experiment))) = 4000
   \<and> N_current (fst (on_key (Some ''right'') (fst interactive_experiment))) = 1100
   \<and> 500 dvd (4000::int) \<and> 100 dvd (1100::int) \<and> even (1100::int)"
proof -
  have r: "reachable (fst (on_key (Some ''right'') (fst interactive_experiment)))"
    by (rule reachable.key [OF reachable_start]) (simp add: interactive_experiment_ok)
  have v: "fs_current (fst (on_key (Some ''right'') (fst interactive_experiment))) = 4000"
    "N_current (fst (on_key (Some ''right'') (fst interactive_experiment))) = 1100"
    by (simp_all add: on_key_fs on_key_N interactive_experiment_ok N_step_def)
  from reachable_parameters_are_step_multiples [OF r] show ?thesis
    unfolding v using r by simp
qed

text \<open>
  C5. In every session reachable by key events from the initial one, the sampling
  frequency and the sample count are strictly positive. A decrease is applied only when
  the current value exceeds one step, so a decrease attempted at exactly one step leaves
  the session as it is.
\<close>

theorem parameters_stay_positive:
  assumes "reachable st"
  shows "0 < fs_current st \<and> 0 < N_current st
     \<and> fs_current (fst (on_key (Some ''down'') st))
         = (if fs_step < fs_current st then fs_current st - fs_step else fs_current st)
     \<and> N_current (fst (on_key (Some ''left'') st))
         = (if N_step < N_current st then N_current st - N_step else N_current st)
     \<and> (fs_current st = fs_step \<longrightarrow> on_key (Some ''down'') st = (st, None))
     \<and> (N_current st = N_step \<longrightarrow> on_key (Some ''left'') st = (st, None))"
proof -
  from reachable_steps [OF assms] have "0 < fs_current st" "0 < N_current st"
    by simp_all
  moreover have "fs_current st = fs_step \<longrightarrow> on_key (Some ''down'') st = (st, None)"
    by (simp add: on_key_def)
  moreover have "N_current st = N_step \<longrightarrow> on_key (Some ''left'') st = (st, None)"
    by (simp add: on_key_def)
  ultimately show ?thesis
    by (simp add: on_key_fs on_key_N)
qed

theorem parameters_stay_positive_witness:
  "reachable (((\<lambda>s. fst (on_key (Some ''left'') s)) ^^ 9)
       (((\<lambda>s. fst (on_key (Some ''down'') s)) ^^ 7) (fst interactive_experiment)))
   \<and> fs_current (((\<lambda>s. fst (on_key (Some ''left'') s)) ^^ 9)
       (((\<lambda>s. fst (on_key (Some ''down'') s)) ^^ 7) (fst interactive_experiment))) = fs_step
   \<and> N_current (((\<lambda>s. fst (on_key (Some ''left'') s)) ^^ 9)
       (((\<lambda>s. fst (on_key (Some ''down'') s)) ^^ 7) (fst interactive_experiment))) = N_step
   \<and> on_key (Some ''down'') (((\<lambda>s. fst (on_key (Some ''left'') s)) ^^ 9)
       (((\<lambda>s. fst (on_key (Some ''down'') s)) ^^ 7) (fst interactive_experiment)))
      = (((\<lambda>s. fst (on_key (Some ''left'') s)) ^^ 9)
       (((\<lambda>s. fst (on_key (Some ''down'') s)) ^^ 7) (fst interactive_experiment)), None)
   \<and> on_key (Some ''left'') (((\<lambda>s. fst (on_key (Some ''left'') s)) ^^ 9)
       (((\<lambda>s. fst (on_key (Some ''down'') s)) ^^ 7) (fst interactive_experiment)))
      = (((\<lambda>s. fst (on_key (Some ''left'') s)) ^^ 9)
       (((\<lambda>s. fst (on_key (Some ''down'') s)) ^^ 7) (fst interactive_experiment)), None)"
proof -
  let ?a = "((\<lambda>s. fst (on_key (Some ''down'') s)) ^^ 7) (fst interactive_experiment)"
  let ?b = "((\<lambda>s. fst (on_key (Some ''left'') s)) ^^ 9) ?a"
  have c0: "\<not> closed (fst interactive_experiment)"
    by (simp add: interactive_experiment_ok)
  from reachable_after_downs [OF reachable_start c0, of 7]
  have a: "reachable ?a" "\<not> closed ?a" "N_current ?a = 1000" "fs_current ?a = fs_step"
    by (simp_all add: interactive_experiment_ok fs_step_def)
  from reachable_after_lefts [OF a(1) a(2), of 9]
  have b: "reachable ?b" "fs_current ?b = fs_step" "N_current ?b = N_step"
    by (simp_all add: a N_step_def)
  from parameters_stay_positive [OF b(1)] b show ?thesis
    by simp
qed

text \<open>
  C8. For every key other than the six recognised ones, \<open>event.key = None\<close> included,
  \<open>on_key\<close> does nothing: the session, with its parameters, its drawing, its redraw count
  and its files, is returned as it was, and no exception is raised.
\<close>

theorem unrecognised_key_is_noop:
  assumes "k \<noteq> Some ''up''" and "k \<noteq> Some ''down''" and "k \<noteq> Some ''right''"
    and "k \<noteq> Some ''left''" and "k \<noteq> Some ''s''" and "k \<noteq> Some ''q''"
  shows "on_key k st = (st, None)"
  using assms by (simp add: on_key_def)

theorem unrecognised_key_is_noop_witness:
  "on_key (Some ''x'') session0 = (session0, None) \<and> on_key None session0 = (session0, None)
   \<and> on_key (Some ''S'') session0 = (session0, None)"
  using unrecognised_key_is_noop [of "Some ''x''" session0]
    unrecognised_key_is_noop [of None session0]
    unrecognised_key_is_noop [of "Some ''S''" session0]
  by simp

text \<open>
  C7. The save key writes one image file, named \<open>experiment_fs_<fs>_N_<N>.png\<close> from the
  current sampling frequency and sample count, and leaves both parameters unchanged.
\<close>

theorem save_writes_named_image:
  "saved (fst (on_key (Some ''s'') st))
     = saved st @ [''experiment_fs_'' @ str_int (fs_current st) @ ''_N_''
                   @ str_int (N_current st) @ ''.png'']
   \<and> fs_current (fst (on_key (Some ''s'') st)) = fs_current st
   \<and> N_current (fst (on_key (Some ''s'') st)) = N_current st"
  by (simp add: on_key_saved on_key_fs on_key_N)

theorem save_writes_named_image_witness:
  "saved (fst (on_key (Some ''s'') (fst interactive_experiment)))
     = saved (fst interactive_experiment) @ [''experiment_fs_4000_N_1000.png'']
   \<and> fs_current (fst (on_key (Some ''s'') (fst interactive_experiment))) = 4000
   \<and> N_current (fst (on_key (Some ''s'') (fst interactive_experiment))) = 1000"
  using save_writes_named_image [of "fst interactive_experiment"]
  by (simp add: interactive_experiment_ok str_int_def str_nat.simps)

text \<open>
  C4. After a recompute the two plot titles carry the status label of the current
  sampling frequency: \<open>Undersampling\<close> exactly when \<open>fs < 2 \<cdot> f2 = 2200\<close>, and
  \<open>Proper Sampling\<close> otherwise. In particular \<open>fs = 1500\<close> is labelled undersampled.
\<close>

theorem status_label_in_titles:
  assumes "update_plot st = Inr st'"
  shows "ax1_title st' = ''Time Domain - '' @ title_status (fs_current st)
           @ '': Fs='' @ str_int (fs_current st) @ ''Hz, N='' @ str_int (N_current st)
   \<and> ax2_title st' = ''Frequency Domain - '' @ title_status (fs_current st)
           @ '': Fs='' @ str_int (fs_current st) @ ''Hz, N='' @ str_int (N_current st)
   \<and> title_status (fs_current st)
       = (if fs_current st < 2200 then ''Undersampling'' else ''Proper Sampling'')
   \<and> (title_status (fs_current st) = ''Undersampling'') = (fs_current st < 2200)
   \<and> title_status 1500 = ''Undersampling''"
  using update_plot_titles [OF assms] by (simp add: title_status_def f2_def)

theorem status_label_in_titles_witness:
  "update_plot (session0 \<lparr> fs_current := 1500 \<rparr>)
     = Inr (fst (redraw (session0 \<lparr> fs_current := 1500 \<rparr>)))
   \<and> ax1_title (fst (redraw (session0 \<lparr> fs_current := 1500 \<rparr>)))
       = ''Time Domain - Undersampling: Fs=1500Hz, N=1000''
   \<and> ax2_title (fst (redraw (session0 \<lparr> fs_current := 1500 \<rparr>)))
       = ''Frequency Domain - Undersampling: Fs=1500Hz, N=1000''"
proof -
  have u: "update_plot (session0 \<lparr> fs_current := 1500 \<rparr>)
             = Inr (fst (redraw (session0 \<lparr> fs_current := 1500 \<rparr>)))"
    by (rule redraw_ok) (simp_all add: session0_parameters)
  from status_label_in_titles [OF u] u show ?thesis
    by (simp add: session0_parameters str_int_def str_nat.simps)
qed

subsection \<open>Which keys redraw\<close>

lemma on_key_redraw_result:
  assumes r: "reachable st"
    and k: "k = Some ''up'' \<or> (k = Some ''down'' \<and> fs_step < fs_current st)
           \<or> k = Some ''right'' \<or> (k = Some ''left'' \<and> N_step < N_current st)
           \<or> k = Some ''s''"
  shows "\<exists>st1. draws st1 = draws st \<and> fs_current st1 = fs_current (fst (on_key k st))
           \<and> N_current st1 = N_current (fst (on_key k st))
           \<and> update_plot st1 = Inr (fst (on_key k st))
           \<and> draws (fst (on_key k st)) = Suc (draws st) \<and> snd (on_key k st) = None"
proof -
  from reachable_steps [OF r] have fs: "0 < fs_current st"
    and N: "0 < N_current st" "100 dvd N_current st"
    by (simp_all add: mod_eq_0_iff_dvd)
  from on_key_redraws [OF k] obtain st1 where st1: "on_key k st = redraw st1"
    "draws st1 = draws st" "fs_current st1 = fs_current (fst (on_key k st))"
    "N_current st1 = N_current (fst (on_key k st))"
    by blast
  have "0 < fs_current (fst (on_key k st))"
    using fs by (simp add: on_key_fs fs_step_def)
  then have fs1: "0 < fs_current st1" using st1(3) by simp
  have "100 dvd N_current st - 100" using N(2) by simp
  moreover have "100 < N_current st \<Longrightarrow> 100 \<le> N_current st - 100"
    using calculation by (simp add: zdvd_imp_le)
  moreover have "100 \<le> N_current st" using N by (simp add: zdvd_imp_le)
  ultimately have "100 \<le> N_current (fst (on_key k st))"
    by (simp add: on_key_N N_step_def)
  then have N1: "2 \<le> N_current st1" using st1(4) by simp
  from redraw_ok [OF N1 fs1] st1 show ?thesis
    by (intro exI [of _ st1]) simp
qed

text \<open>
  C6, as stated, does not hold for the save key: its branch of \<open>on_key\<close> has no
  \<open>return\<close>, so the handler goes on to \<open>update_plot()\<close>. In the session the event loop
  starts from, which has been drawn once, the save key makes the second drawing.
\<close>

theorem save_key_redraws:
  "draws (fst interactive_experiment) = 1
   \<and> draws (fst (on_key (Some ''s'') (fst interactive_experiment))) = 2"
proof -
  have "\<exists>st1. draws st1 = draws (fst interactive_experiment)
           \<and> fs_current st1 = fs_current (fst (on_key (Some ''s'') (fst interactive_experiment)))
           \<and> N_current st1 = N_current (fst (on_key (Some ''s'') (fst interactive_experiment)))
           \<and> update_plot st1 = Inr (fst (on_key (Some ''s'') (fst interactive_experiment)))
           \<and> draws (fst (on_key (Some ''s'') (fst interactive_experiment)))
               = Suc (draws (fst interactive_experiment))
           \<and> snd (on_key (Some ''s'') (fst interactive_experiment)) = None"
    by (rule on_key_redraw_result [OF reachable_start]) simp
  then have "draws (fst (on_key (Some ''s'') (fst interactive_experiment)))
          = Suc (draws (fst interactive_experiment))"
    by blast
  then show ?thesis by (simp add: interactive_experiment_ok)
qed

text \<open>
  C6, amended. In every reachable session, the four parameter adjustments, when
  accepted, and the save key trigger one full recomputation and redraw: the session
  after the key is what \<open>update_plot\<close> computes from the adjusted parameters, drawn once
  more. The quit key, a rejected decrease and every other key do not recompute or redraw.
  No key raises there.
\<close>

theorem keys_that_recompute_and_redraw:
  assumes "reachable st"
  shows "(if k = Some ''up'' \<or> (k = Some ''down'' \<and> fs_step < fs_current st)
             \<or> k = Some ''right'' \<or> (k = Some ''left'' \<and> N_step < N_current st)
             \<or> k = Some ''s''
          then draws (fst (on_key k st)) = Suc (draws st)
               \<and> (\<exists>st1. draws st1 = draws st
                      \<and> fs_current st1 = fs_current (fst (on_key k st))
                      \<and> N_current st1 = N_current (fst (on_key k st))
                      \<and> update_plot st1 = Inr (fst (on_key k st)))
          else draws (fst (on_key k st)) = draws st
               \<and> fst (on_key k st) = (if k = Some ''q'' then st \<lparr> closed := True \<rparr> else st))
         \<and> snd (on_key k st) = None"
proof (cases "k = Some ''up'' \<or> (k = Some ''down'' \<and> fs_step < fs_current st)
             \<or> k = Some ''right'' \<or> (k = Some ''left'' \<and> N_step < N_current st)
             \<or> k = Some ''s''")
  case True
  from on_key_redraw_result [OF assms True] obtain st1 where
    "draws st1 = draws st" "fs_current st1 = fs_current (fst (on_key k st))"
    "N_current st1 = N_current (fst (on_key k st))"
    "update_plot st1 = Inr (fst (on_key k st))"
    "draws (fst (on_key k st)) = Suc (draws st)" "snd (on_key k st) = None"
    by blast
  then have "draws (fst (on_key k st)) = Suc (draws st)
               \<and> (\<exists>st1. draws st1 = draws st
                      \<and> fs_current st1 = fs_current (fst (on_key k st))
                      \<and> N_current st1 = N_current (fst (on_key k st))
                      \<and> update_plot st1 = Inr (fst (on_key k st)))
             \<and> snd (on_key k st) = None"
    by blast
  then show ?thesis
    by (simp only: True if_True) 
next
  case False
  from on_key_returns [OF False]
  have "draws (fst (on_key k st)) = draws st
          \<and> fst (on_key k st) = (if k = Some ''q'' then st \<lparr> closed := True \<rparr> else st)
          \<and> snd (on_key k st) = None"
    by simp
  then show ?thesis
    by (simp only: False if_False) simp
qed

theorem keys_that_recompute_and_redraw_witness:
  "reachable (fst interactive_experiment)
   \<and> draws (fst (on_key (Some ''up'') (fst interactive_experiment))) = 2
   \<and> draws (fst (on_key (Some ''q'') (fst interactive_experiment))) = 1
   \<and> draws (fst (on_key (Some ''x'') (fst interactive_experiment))) = 1"
  using keys_that_recompute_and_redraw [OF reachable_start, of "Some ''up''"]
    keys_that_recompute_and_redraw [OF reachable_start, of "Some ''q''"]
    keys_that_recompute_and_redraw [OF reachable_start, of "Some ''x''"]
  by (simp add: interactive_experiment_ok reachable_start)

end
